theory Spec2Isabelle
  imports Main
begin

unbundle bit_operations_syntax

section \<open>The stdio wrapper classes \<open>xtr::CFile\<close> and \<open>xtr::cfile\<close>\<close>

text \<open>
  The repository ships two headers, \<^verbatim>\<open>include/CFile.hpp\<close> (class \<open>CFile\<close>) and
  \<^verbatim>\<open>include/cfile.hpp\<close> (class \<open>cfile\<close>). Each class has one data member, a
  \<^verbatim>\<open>std::FILE *\<close>, and forwards to the C stdio functions. Both classes are embedded
  here, member function by member function; a definition named \<open>CFile_f\<close> embeds
  \<open>CFile::f\<close>, one named \<open>cfile_f\<close> embeds \<open>cfile::f\<close>.
\<close>

subsection \<open>Pointers, objects and the platform\<close>

text \<open>
  A \<^verbatim>\<open>std::FILE *\<close> is either \<^verbatim>\<open>nullptr\<close> (\<open>None\<close>) or the address of a stream object
  (\<open>Some h\<close>). A \<^verbatim>\<open>const char *\<close> is either \<^verbatim>\<open>nullptr\<close> or a byte string.
\<close>

type_synonym FILE_ptr = "nat option"
type_synonym cstring = "string option"
type_synonym buffer = "nat option"

text \<open>Instances of the classes are objects of the program; an object is named by its address.\<close>

type_synonym address = nat

text \<open>
  The stdio functions other than \<^verbatim>\<open>fopen\<close>, \<^verbatim>\<open>freopen\<close>, \<^verbatim>\<open>fclose\<close> and \<^verbatim>\<open>tmpfile\<close>
  that the classes call with their stream, each with the arguments it receives
  (variadic arguments are left out).
\<close>

datatype stdio_request =
    Fflush
  | Setbuf buffer
  | Setvbuf buffer int nat
  | Fread buffer nat nat
  | Fwrite buffer nat nat
  | Fgetc
  | Fgets buffer int
  | Fputc int
  | Fputs cstring
  | Ungetc int
  | Fscanf cstring
  | Vfscanf cstring
  | Fprintf cstring
  | Vfprintf cstring
  | Ftell
  | Fgetpos buffer
  | Fseek int int
  | Fsetpos buffer
  | Rewind
  | Clearerr
  | Feof
  | Ferror

text \<open>A call of a stdio function, as the platform sees it.\<close>

datatype call =
    Std_fopen cstring cstring
  | Std_freopen cstring cstring FILE_ptr
  | Std_fclose FILE_ptr
  | Std_tmpfile
  | Std_stream stdio_request FILE_ptr

text \<open>
  The platform is not part of the repository. It is a parameter of the model: what each
  stdio function returns, given the calls made before, and the values of the macros
  \<^verbatim>\<open>_IONBF\<close>, \<^verbatim>\<open>_IOFBF\<close> and \<^verbatim>\<open>BUFSIZ\<close>. Results of the stream functions are
  encoded as integers. Nothing is assumed about what the platform returns, also not for a
  null stream, where the C standard leaves the behaviour undefined.
\<close>

record platform =
  fopen_ret :: "call list \<Rightarrow> cstring \<Rightarrow> cstring \<Rightarrow> FILE_ptr"
  freopen_ret :: "call list \<Rightarrow> cstring \<Rightarrow> cstring \<Rightarrow> FILE_ptr \<Rightarrow> FILE_ptr"
  fclose_ret :: "call list \<Rightarrow> FILE_ptr \<Rightarrow> int"
  tmpfile_ret :: "call list \<Rightarrow> FILE_ptr"
  stream_ret :: "call list \<Rightarrow> stdio_request \<Rightarrow> FILE_ptr \<Rightarrow> int"
  IONBF :: int
  IOFBF :: int
  BUFSIZ :: nat

text \<open>
  The program state: the \<open>stream\<close> (\<open>m_stream\<close>) member of the object at each address, and
  the platform calls made so far, oldest first.
\<close>

record state =
  objs :: "address \<Rightarrow> FILE_ptr"
  calls :: "call list"

text \<open>
  A run ends early when an \<^verbatim>\<open>assert\<close> fails. A call of a function declared
  \<^verbatim>\<open>= delete\<close> does not compile; the model gives it the result \<open>Deleted_function\<close>.
\<close>

datatype failure = Assertion_failed | Deleted_function

definition std_fopen :: "platform \<Rightarrow> cstring \<Rightarrow> cstring \<Rightarrow> state \<Rightarrow> FILE_ptr \<times> state" where
  "std_fopen pf filename m s =
     (fopen_ret pf (calls s) filename m, s\<lparr>calls := calls s @ [Std_fopen filename m]\<rparr>)"

definition std_freopen ::
  "platform \<Rightarrow> cstring \<Rightarrow> cstring \<Rightarrow> FILE_ptr \<Rightarrow> state \<Rightarrow> FILE_ptr \<times> state" where
  "std_freopen pf filename m p s =
     (freopen_ret pf (calls s) filename m p, s\<lparr>calls := calls s @ [Std_freopen filename m p]\<rparr>)"

definition std_fclose :: "platform \<Rightarrow> FILE_ptr \<Rightarrow> state \<Rightarrow> int \<times> state" where
  "std_fclose pf p s = (fclose_ret pf (calls s) p, s\<lparr>calls := calls s @ [Std_fclose p]\<rparr>)"

definition std_tmpfile :: "platform \<Rightarrow> state \<Rightarrow> FILE_ptr \<times> state" where
  "std_tmpfile pf s = (tmpfile_ret pf (calls s), s\<lparr>calls := calls s @ [Std_tmpfile]\<rparr>)"

definition std_stream :: "platform \<Rightarrow> stdio_request \<Rightarrow> FILE_ptr \<Rightarrow> state \<Rightarrow> int \<times> state" where
  "std_stream pf r p s = (stream_ret pf (calls s) r p, s\<lparr>calls := calls s @ [Std_stream r p]\<rparr>)"

text \<open>Writing the stream member of the object at \<open>this\<close>.\<close>

definition set_stream :: "address \<Rightarrow> FILE_ptr \<Rightarrow> state \<Rightarrow> state" where
  "set_stream this p s = s\<lparr>objs := (objs s)(this := p)\<rparr>"

text \<open>\<^verbatim>\<open>std::exchange(other.stream, nullptr)\<close>: the old value, and the state with the member cleared.\<close>

definition exchange_stream :: "address \<Rightarrow> FILE_ptr \<Rightarrow> state \<Rightarrow> FILE_ptr \<times> state" where
  "exchange_stream obj new s = (objs s obj, set_stream obj new s)"

subsection \<open>Access modes\<close>

text \<open>
  \<^verbatim>\<open>enum class Mode\<close> (\<open>CFile\<close>) and \<^verbatim>\<open>enum class mode\<close> (\<open>cfile\<close>) have the underlying
  type \<^verbatim>\<open>int\<close>; a value of either is an integer, and \<^verbatim>\<open>operator|\<close> is the bitwise or
  of the underlying values.
\<close>

definition Mode_Read :: int where "Mode_Read = 1"
definition Mode_Write :: int where "Mode_Write = 2"
definition Mode_Append :: int where "Mode_Append = 4"
definition Mode_Binary :: int where "Mode_Binary = 8"
definition Mode_Extended :: int where "Mode_Extended = 16"

definition Mode_or :: "int \<Rightarrow> int \<Rightarrow> int" where
  "Mode_or rhs lhs = rhs OR lhs"

definition mode_read :: int where "mode_read = 1"
definition mode_write :: int where "mode_write = 2"
definition mode_append :: int where "mode_append = 4"
definition mode_binary :: int where "mode_binary = 8"
definition mode_extended :: int where "mode_extended = 16"

definition mode_or :: "int \<Rightarrow> int \<Rightarrow> int" where
  "mode_or rhs lhs = (let result = rhs OR lhs in result)"

text \<open>
  \<open>CFile::to_cstring(Mode)\<close>. The \<^verbatim>\<open>switch\<close> has twelve labels; after it stands
  \<^verbatim>\<open>assert(false); return nullptr;\<close>. The parameter \<open>ndebug\<close> says whether the
  translation unit is compiled with \<^verbatim>\<open>NDEBUG\<close> defined, which turns \<^verbatim>\<open>assert\<close> into
  nothing.
\<close>

definition to_cstring :: "bool \<Rightarrow> int \<Rightarrow> failure + cstring" where
  "to_cstring ndebug m =
     (if m = Mode_Read then Inr (Some ''r'')
      else if m = Mode_Write then Inr (Some ''w'')
      else if m = Mode_Append then Inr (Some ''a'')
      else if m = Mode_or Mode_Read Mode_Extended then Inr (Some ''r+'')
      else if m = Mode_or Mode_Write Mode_Extended then Inr (Some ''w+'')
      else if m = Mode_or Mode_Append Mode_Extended then Inr (Some ''a+'')
      else if m = Mode_or Mode_Read Mode_Binary then Inr (Some ''rb'')
      else if m = Mode_or Mode_Write Mode_Binary then Inr (Some ''wb'')
      else if m = Mode_or Mode_Append Mode_Binary then Inr (Some ''ab'')
      else if m = Mode_or (Mode_or Mode_Read Mode_Binary) Mode_Extended then Inr (Some ''rb+'')
      else if m = Mode_or (Mode_or Mode_Write Mode_Binary) Mode_Extended then Inr (Some ''wb+'')
      else if m = Mode_or (Mode_or Mode_Append Mode_Binary) Mode_Extended then Inr (Some ''ab+'')
      else if ndebug then Inr None
      else Inl Assertion_failed)"

text \<open>\<open>cfile::to_access_mode_string(mode)\<close>: the same \<^verbatim>\<open>switch\<close> over \<open>cfile::mode\<close>.\<close>

definition to_access_mode_string :: "bool \<Rightarrow> int \<Rightarrow> failure + cstring" where
  "to_access_mode_string ndebug access_mode =
     (if access_mode = mode_read then Inr (Some ''r'')
      else if access_mode = mode_write then Inr (Some ''w'')
      else if access_mode = mode_append then Inr (Some ''a'')
      else if access_mode = mode_or mode_read mode_extended then Inr (Some ''r+'')
      else if access_mode = mode_or mode_write mode_extended then Inr (Some ''w+'')
      else if access_mode = mode_or mode_append mode_extended then Inr (Some ''a+'')
      else if access_mode = mode_or mode_read mode_binary then Inr (Some ''rb'')
      else if access_mode = mode_or mode_write mode_binary then Inr (Some ''wb'')
      else if access_mode = mode_or mode_append mode_binary then Inr (Some ''ab'')
      else if access_mode = mode_or (mode_or mode_read mode_binary) mode_extended
        then Inr (Some ''rb+'')
      else if access_mode = mode_or (mode_or mode_write mode_binary) mode_extended
        then Inr (Some ''wb+'')
      else if access_mode = mode_or (mode_or mode_append mode_binary) mode_extended
        then Inr (Some ''ab+'')
      else if ndebug then Inr None
      else Inl Assertion_failed)"

text \<open>
  The mode argument of the opening functions is a template parameter: a \<open>Mode\<close> value, or a
  string (\<^verbatim>\<open>const char *\<close>, \<^verbatim>\<open>char *\<close>, and for \<open>CFile\<close> also \<^verbatim>\<open>std::string\<close>), which the
  overloads for strings return as it is.
\<close>

datatype mode_arg = Flags int | Raw cstring

definition CFile_mode_cstring :: "bool \<Rightarrow> mode_arg \<Rightarrow> failure + cstring" where
  "CFile_mode_cstring ndebug a = (case a of Flags m \<Rightarrow> to_cstring ndebug m | Raw c \<Rightarrow> Inr c)"

definition cfile_mode_cstring :: "bool \<Rightarrow> mode_arg \<Rightarrow> failure + cstring" where
  "cfile_mode_cstring ndebug a =
     (case a of Flags m \<Rightarrow> to_access_mode_string ndebug m | Raw c \<Rightarrow> Inr c)"

subsection \<open>Class \<open>CFile\<close>: construction and ownership\<close>

text \<open>
  \<^verbatim>\<open>explicit CFile() noexcept = default;\<close> with the member declared \<^verbatim>\<open>std::FILE *stream{};\<close>:
  the default member initializer makes the stream null in every form of initialization.
\<close>

definition CFile_default_ctor :: "address \<Rightarrow> state \<Rightarrow> state" where
  "CFile_default_ctor this s = set_stream this None s"

text \<open>
  An argument that selects between the overloads \<^verbatim>\<open>f(std::FILE *)\<close> and
  \<^verbatim>\<open>f(std::nullptr_t) = delete\<close>: the literal \<^verbatim>\<open>nullptr\<close> has the type
  \<^verbatim>\<open>std::nullptr_t\<close>; an expression of type \<^verbatim>\<open>std::FILE *\<close> has a value known at run
  time only, which may be null.
\<close>

datatype adopt_arg = Nullptr_literal | File_pointer FILE_ptr

text \<open>\<^verbatim>\<open>explicit CFile(std::FILE *other)\<close> and \<^verbatim>\<open>CFile(std::nullptr_t) = delete\<close>.\<close>

definition CFile_adopt_ctor :: "adopt_arg \<Rightarrow> address \<Rightarrow> state \<Rightarrow> failure + state" where
  "CFile_adopt_ctor a this s =
     (case a of
        Nullptr_literal \<Rightarrow> Inl Deleted_function
      | File_pointer other \<Rightarrow> Inr (set_stream this other s))"

text \<open>\<^verbatim>\<open>CFile(const T &filename, const U &mode)\<close>.\<close>

definition CFile_open_ctor ::
  "bool \<Rightarrow> platform \<Rightarrow> cstring \<Rightarrow> mode_arg \<Rightarrow> address \<Rightarrow> state \<Rightarrow> failure + state" where
  "CFile_open_ctor ndebug pf filename mode this s =
     (case CFile_mode_cstring ndebug mode of
        Inl e \<Rightarrow> Inl e
      | Inr m \<Rightarrow>
          (let (result, s1) = std_fopen pf filename m s
           in Inr (set_stream this result s1)))"

text \<open>\<^verbatim>\<open>CFile(CFile &&other)\<close>: \<open>stream\<close> is initialised with \<^verbatim>\<open>std::exchange(other.stream, nullptr)\<close>.\<close>

definition CFile_move_ctor :: "address \<Rightarrow> address \<Rightarrow> state \<Rightarrow> state" where
  "CFile_move_ctor other this s =
     (let (old, s1) = exchange_stream other None s
      in set_stream this old s1)"

text \<open>\<^verbatim>\<open>CFile &operator=(CFile &&other)\<close>. The source has no test for \<open>this == &other\<close>.\<close>

definition CFile_move_assign :: "platform \<Rightarrow> address \<Rightarrow> address \<Rightarrow> state \<Rightarrow> state" where
  "CFile_move_assign pf other this s =
     (let s1 = (if objs s this \<noteq> None then snd (std_fclose pf (objs s this) s) else s);
          (old, s2) = exchange_stream other None s1
      in set_stream this old s2)"

text \<open>\<^verbatim>\<open>~CFile()\<close>.\<close>

definition CFile_dtor :: "platform \<Rightarrow> address \<Rightarrow> state \<Rightarrow> state" where
  "CFile_dtor pf this s =
     (if objs s this \<noteq> None
      then (let s1 = snd (std_fclose pf (objs s this) s) in set_stream this None s1)
      else s)"

text \<open>\<^verbatim>\<open>int reset()\<close>.\<close>

definition CFile_reset :: "platform \<Rightarrow> address \<Rightarrow> state \<Rightarrow> int \<times> state" where
  "CFile_reset pf this s =
     (if objs s this \<noteq> None
      then (let (result, s1) = std_fclose pf (objs s this) s
            in (result, set_stream this None s1))
      else (0, s))"

text \<open>\<^verbatim>\<open>int reset(std::FILE *other)\<close> and \<^verbatim>\<open>int reset(std::nullptr_t) = delete\<close>.\<close>

definition CFile_reset_to ::
  "platform \<Rightarrow> adopt_arg \<Rightarrow> address \<Rightarrow> state \<Rightarrow> failure + int \<times> state" where
  "CFile_reset_to pf a this s =
     (case a of
        Nullptr_literal \<Rightarrow> Inl Deleted_function
      | File_pointer other \<Rightarrow>
          (let (result, s1) =
                 (if objs s this \<noteq> None then std_fclose pf (objs s this) s else (0, s))
           in Inr (result, set_stream this other s1)))"

text \<open>\<^verbatim>\<open>std::FILE *release()\<close>.\<close>

definition CFile_release :: "address \<Rightarrow> state \<Rightarrow> FILE_ptr \<times> state" where
  "CFile_release this s =
     (let result = objs s this
      in (result, set_stream this None s))"

text \<open>
  The result of \<open>get\<close>: \<open>CFile::get\<close> returns \<^verbatim>\<open>std::FILE *&\<close>, a reference to the member of
  the object, through which the caller can assign; \<open>cfile::get\<close> returns \<^verbatim>\<open>std::FILE *\<close>,
  a copy of the member's value.
\<close>

datatype get_result = Reference_to_stream address | Pointer_value FILE_ptr

definition CFile_get :: "address \<Rightarrow> state \<Rightarrow> get_result" where
  "CFile_get this s = Reference_to_stream this"

text \<open>The four comparisons with \<^verbatim>\<open>nullptr\<close>: \<open>==\<close> (either order) and \<open>!=\<close> (either order).\<close>

definition CFile_eq_nullptr :: "address \<Rightarrow> state \<Rightarrow> bool" where
  "CFile_eq_nullptr object s = (objs s object = None)"

definition CFile_ne_nullptr :: "address \<Rightarrow> state \<Rightarrow> bool" where
  "CFile_ne_nullptr object s = (objs s object \<noteq> None)"

subsection \<open>Class \<open>CFile\<close>: file access\<close>

text \<open>
  \<^verbatim>\<open>CFile &fopen(const T &filename, const U &mode)\<close>: \<^verbatim>\<open>assert(stream == nullptr)\<close> is the
  first statement, before the arguments of \<^verbatim>\<open>std::fopen\<close> are evaluated.
\<close>

definition CFile_fopen ::
  "bool \<Rightarrow> platform \<Rightarrow> cstring \<Rightarrow> mode_arg \<Rightarrow> address \<Rightarrow> state \<Rightarrow> failure + state" where
  "CFile_fopen ndebug pf filename mode this s =
     (if \<not> ndebug \<and> objs s this \<noteq> None then Inl Assertion_failed
      else
        (case CFile_mode_cstring ndebug mode of
           Inl e \<Rightarrow> Inl e
         | Inr m \<Rightarrow>
             (let (result, s1) = std_fopen pf filename m s
              in Inr (set_stream this result s1))))"

text \<open>\<^verbatim>\<open>CFile &freopen(const T &filename, const U &mode)\<close>.\<close>

definition CFile_freopen ::
  "bool \<Rightarrow> platform \<Rightarrow> cstring \<Rightarrow> mode_arg \<Rightarrow> address \<Rightarrow> state \<Rightarrow> failure + state" where
  "CFile_freopen ndebug pf filename mode this s =
     (case CFile_mode_cstring ndebug mode of
        Inl e \<Rightarrow> Inl e
      | Inr m \<Rightarrow>
          (let (result, s1) = std_freopen pf filename m (objs s this) s
           in Inr (set_stream this result s1)))"

text \<open>\<^verbatim>\<open>int fclose()\<close>: \<^verbatim>\<open>std::fclose(stream)\<close> is called without a test of \<open>stream\<close>.\<close>

definition CFile_fclose :: "platform \<Rightarrow> address \<Rightarrow> state \<Rightarrow> int \<times> state" where
  "CFile_fclose pf this s =
     (let (result, s1) = std_fclose pf (objs s this) s
      in (result, set_stream this None s1))"

text \<open>\<^verbatim>\<open>static CFile tmpfile()\<close>: \<^verbatim>\<open>return CFile{std::tmpfile()};\<close>, the result built at \<open>this\<close>.\<close>

definition CFile_tmpfile :: "platform \<Rightarrow> address \<Rightarrow> state \<Rightarrow> failure + state" where
  "CFile_tmpfile pf this s =
     (let (result, s1) = std_tmpfile pf s
      in CFile_adopt_ctor (File_pointer result) this s1)"

text \<open>
  The remaining members that use the stream. Each is one \<^verbatim>\<open>return std::f(..., stream);\<close>;
  none contains an \<^verbatim>\<open>assert\<close>. The template overloads of \<open>fread\<close>, \<open>fwrite\<close> and \<open>fgets\<close>
  call the overloads listed here with \<^verbatim>\<open>sizeof(T)\<close> and the array length.
\<close>

datatype io_member =
    M_fflush
  | M_setbuf buffer
  | M_setvbuf_nullptr
  | M_setvbuf_buffer buffer
  | M_setvbuf buffer int nat
  | M_fread buffer nat nat
  | M_fwrite buffer nat nat
  | M_fgetc
  | M_fgets buffer int
  | M_fputc int
  | M_fputs cstring
  | M_ungetc int
  | M_fscanf cstring
  | M_vfscanf cstring
  | M_fprintf cstring
  | M_vfprintf cstring
  | M_ftell
  | M_fgetpos buffer
  | M_fseek int int
  | M_fsetpos buffer
  | M_rewind
  | M_clearerr
  | M_feof
  | M_ferror

text \<open>The stdio call a member of \<open>CFile\<close> makes, from its body.\<close>

fun CFile_request :: "platform \<Rightarrow> io_member \<Rightarrow> stdio_request" where
  "CFile_request pf M_fflush = Fflush"
| "CFile_request pf (M_setbuf buffer) = Setbuf buffer"
| "CFile_request pf M_setvbuf_nullptr = Setvbuf None (IONBF pf) 0"
| "CFile_request pf (M_setvbuf_buffer buffer) =
     (if buffer = None then Setvbuf buffer (IONBF pf) 0
      else Setvbuf buffer (IOFBF pf) (BUFSIZ pf))"
| "CFile_request pf (M_setvbuf buffer mode size') = Setvbuf buffer mode size'"
| "CFile_request pf (M_fread buffer size' count) = Fread buffer size' count"
| "CFile_request pf (M_fwrite buffer size' count) = Fwrite buffer size' count"
| "CFile_request pf M_fgetc = Fgetc"
| "CFile_request pf (M_fgets buffer count) = Fgets buffer count"
| "CFile_request pf (M_fputc character) = Fputc character"
| "CFile_request pf (M_fputs buffer) = Fputs buffer"
| "CFile_request pf (M_ungetc character) = Ungetc character"
| "CFile_request pf (M_fscanf format) = Fscanf format"
| "CFile_request pf (M_vfscanf format) = Vfscanf format"
| "CFile_request pf (M_fprintf format) = Fprintf format"
| "CFile_request pf (M_vfprintf format) = Vfprintf format"
| "CFile_request pf M_ftell = Ftell"
| "CFile_request pf (M_fgetpos position) = Fgetpos position"
| "CFile_request pf (M_fseek offset origin) = Fseek offset origin"
| "CFile_request pf (M_fsetpos position) = Fsetpos position"
| "CFile_request pf M_rewind = Rewind"
| "CFile_request pf M_clearerr = Clearerr"
| "CFile_request pf M_feof = Feof"
| "CFile_request pf M_ferror = Ferror"

text \<open>
  Calling such a member on the object at \<open>this\<close>. The result is a \<open>failure + _\<close> like that of
  the members that assert, so that the two can be compared; no branch of it fails.
\<close>

definition CFile_io ::
  "bool \<Rightarrow> platform \<Rightarrow> io_member \<Rightarrow> address \<Rightarrow> state \<Rightarrow> failure + int \<times> state" where
  "CFile_io ndebug pf member this s =
     Inr (std_stream pf (CFile_request pf member) (objs s this) s)"

subsection \<open>Class \<open>cfile\<close>: construction and ownership\<close>

text \<open>
  \<^verbatim>\<open>explicit cfile() noexcept = default;\<close> with the member declared \<^verbatim>\<open>std::FILE *m_stream;\<close>,
  without an initializer. The constructor is defaulted on its first declaration, so
  value-initialization (\<^verbatim>\<open>cfile f{};\<close>, \<^verbatim>\<open>cfile()\<close>) zero-initializes the member, while
  default-initialization (\<^verbatim>\<open>cfile f;\<close>) writes nothing: the member has an indeterminate
  value, in the model whatever the storage at \<open>this\<close> holds.
\<close>

datatype initialization = Default_initialization | Value_initialization

definition cfile_default_ctor :: "initialization \<Rightarrow> address \<Rightarrow> state \<Rightarrow> state" where
  "cfile_default_ctor init this s =
     (case init of
        Default_initialization \<Rightarrow> s
      | Value_initialization \<Rightarrow> set_stream this None s)"

text \<open>\<^verbatim>\<open>explicit cfile(std::FILE *other)\<close> and \<^verbatim>\<open>cfile(std::nullptr_t) = delete\<close>.\<close>

definition cfile_adopt_ctor :: "adopt_arg \<Rightarrow> address \<Rightarrow> state \<Rightarrow> failure + state" where
  "cfile_adopt_ctor a this s =
     (case a of
        Nullptr_literal \<Rightarrow> Inl Deleted_function
      | File_pointer other \<Rightarrow> Inr (set_stream this other s))"

text \<open>\<^verbatim>\<open>cfile(const char *filename, const Type &mode)\<close>.\<close>

definition cfile_open_ctor ::
  "bool \<Rightarrow> platform \<Rightarrow> cstring \<Rightarrow> mode_arg \<Rightarrow> address \<Rightarrow> state \<Rightarrow> failure + state" where
  "cfile_open_ctor ndebug pf filename mode this s =
     (case cfile_mode_cstring ndebug mode of
        Inl e \<Rightarrow> Inl e
      | Inr m \<Rightarrow>
          (let (result, s1) = std_fopen pf filename m s
           in Inr (set_stream this result s1)))"

text \<open>\<^verbatim>\<open>cfile(cfile &&other)\<close>.\<close>

definition cfile_move_ctor :: "address \<Rightarrow> address \<Rightarrow> state \<Rightarrow> state" where
  "cfile_move_ctor other this s =
     (let (old, s1) = exchange_stream other None s
      in set_stream this old s1)"

text \<open>\<^verbatim>\<open>cfile &operator=(cfile &&other)\<close>, also without a test for \<open>this == &other\<close>.\<close>

definition cfile_move_assign :: "platform \<Rightarrow> address \<Rightarrow> address \<Rightarrow> state \<Rightarrow> state" where
  "cfile_move_assign pf other this s =
     (let s1 = (if objs s this \<noteq> None then snd (std_fclose pf (objs s this) s) else s);
          (old, s2) = exchange_stream other None s1
      in set_stream this old s2)"

text \<open>\<^verbatim>\<open>~cfile()\<close>.\<close>

definition cfile_dtor :: "platform \<Rightarrow> address \<Rightarrow> state \<Rightarrow> state" where
  "cfile_dtor pf this s =
     (if objs s this \<noteq> None
      then (let s1 = snd (std_fclose pf (objs s this) s) in set_stream this None s1)
      else s)"

text \<open>\<^verbatim>\<open>int reset()\<close>.\<close>

definition cfile_reset :: "platform \<Rightarrow> address \<Rightarrow> state \<Rightarrow> int \<times> state" where
  "cfile_reset pf this s =
     (if objs s this \<noteq> None
      then (let (result, s1) = std_fclose pf (objs s this) s
            in (result, set_stream this None s1))
      else (0, s))"

text \<open>\<^verbatim>\<open>int reset(std::FILE *other)\<close> and \<^verbatim>\<open>int reset(std::nullptr_t) = delete\<close>.\<close>

definition cfile_reset_to ::
  "platform \<Rightarrow> adopt_arg \<Rightarrow> address \<Rightarrow> state \<Rightarrow> failure + int \<times> state" where
  "cfile_reset_to pf a this s =
     (case a of
        Nullptr_literal \<Rightarrow> Inl Deleted_function
      | File_pointer other \<Rightarrow>
          (let (result, s1) =
                 (if objs s this \<noteq> None then std_fclose pf (objs s this) s else (0, s))
           in Inr (result, set_stream this other s1)))"

text \<open>\<^verbatim>\<open>std::FILE *release()\<close>.\<close>

definition cfile_release :: "address \<Rightarrow> state \<Rightarrow> FILE_ptr \<times> state" where
  "cfile_release this s =
     (let result = objs s this
      in (result, set_stream this None s))"

text \<open>\<^verbatim>\<open>std::FILE *get() const\<close>.\<close>

definition cfile_get :: "address \<Rightarrow> state \<Rightarrow> get_result" where
  "cfile_get this s = Pointer_value (objs s this)"

text \<open>\<^verbatim>\<open>explicit operator bool() const\<close>; \<open>CFile\<close> has no such member.\<close>

definition cfile_operator_bool :: "address \<Rightarrow> state \<Rightarrow> bool" where
  "cfile_operator_bool this s = (objs s this \<noteq> None)"

definition cfile_eq_nullptr :: "address \<Rightarrow> state \<Rightarrow> bool" where
  "cfile_eq_nullptr object s = (objs s object = None)"

definition cfile_ne_nullptr :: "address \<Rightarrow> state \<Rightarrow> bool" where
  "cfile_ne_nullptr object s = (objs s object \<noteq> None)"

subsection \<open>Class \<open>cfile\<close>: file access\<close>

text \<open>\<^verbatim>\<open>cfile &fopen(const char *filename, const Type &mode)\<close>, with \<^verbatim>\<open>assert(m_stream == nullptr)\<close> first.\<close>

definition cfile_fopen ::
  "bool \<Rightarrow> platform \<Rightarrow> cstring \<Rightarrow> mode_arg \<Rightarrow> address \<Rightarrow> state \<Rightarrow> failure + state" where
  "cfile_fopen ndebug pf filename mode this s =
     (if \<not> ndebug \<and> objs s this \<noteq> None then Inl Assertion_failed
      else
        (case cfile_mode_cstring ndebug mode of
           Inl e \<Rightarrow> Inl e
         | Inr m \<Rightarrow>
             (let (result, s1) = std_fopen pf filename m s
              in Inr (set_stream this result s1))))"

text \<open>\<^verbatim>\<open>cfile &freopen(const char *filename, const Type &mode)\<close>.\<close>

definition cfile_freopen ::
  "bool \<Rightarrow> platform \<Rightarrow> cstring \<Rightarrow> mode_arg \<Rightarrow> address \<Rightarrow> state \<Rightarrow> failure + state" where
  "cfile_freopen ndebug pf filename mode this s =
     (case cfile_mode_cstring ndebug mode of
        Inl e \<Rightarrow> Inl e
      | Inr m \<Rightarrow>
          (let (result, s1) = std_freopen pf filename m (objs s this) s
           in Inr (set_stream this result s1)))"

text \<open>\<^verbatim>\<open>int fclose()\<close>.\<close>

definition cfile_fclose :: "platform \<Rightarrow> address \<Rightarrow> state \<Rightarrow> int \<times> state" where
  "cfile_fclose pf this s =
     (let (result, s1) = std_fclose pf (objs s this) s
      in (result, set_stream this None s1))"

text \<open>\<^verbatim>\<open>static cfile tmpfile()\<close>: \<^verbatim>\<open>return cfile{std::tmpfile()};\<close>.\<close>

definition cfile_tmpfile :: "platform \<Rightarrow> address \<Rightarrow> state \<Rightarrow> failure + state" where
  "cfile_tmpfile pf this s =
     (let (result, s1) = std_tmpfile pf s
      in cfile_adopt_ctor (File_pointer result) this s1)"

text \<open>The stdio call a member of \<open>cfile\<close> makes, from its body.\<close>

fun cfile_request :: "platform \<Rightarrow> io_member \<Rightarrow> stdio_request" where
  "cfile_request pf M_fflush = Fflush"
| "cfile_request pf (M_setbuf buffer) = Setbuf buffer"
| "cfile_request pf M_setvbuf_nullptr = Setvbuf None (IONBF pf) 0"
| "cfile_request pf (M_setvbuf_buffer buffer) =
     (if buffer = None then Setvbuf buffer (IONBF pf) 0
      else Setvbuf buffer (IOFBF pf) (BUFSIZ pf))"
| "cfile_request pf (M_setvbuf buffer mode size') = Setvbuf buffer mode size'"
| "cfile_request pf (M_fread buffer size' count) = Fread buffer size' count"
| "cfile_request pf (M_fwrite buffer size' count) = Fwrite buffer size' count"
| "cfile_request pf M_fgetc = Fgetc"
| "cfile_request pf (M_fgets buffer count) = Fgets buffer count"
| "cfile_request pf (M_fputc character) = Fputc character"
| "cfile_request pf (M_fputs buffer) = Fputs buffer"
| "cfile_request pf (M_ungetc character) = Ungetc character"
| "cfile_request pf (M_fscanf format) = Fscanf format"
| "cfile_request pf (M_vfscanf format) = Vfscanf format"
| "cfile_request pf (M_fprintf format) = Fprintf format"
| "cfile_request pf (M_vfprintf format) = Vfprintf format"
| "cfile_request pf M_ftell = Ftell"
| "cfile_request pf (M_fgetpos position) = Fgetpos position"
| "cfile_request pf (M_fseek offset origin) = Fseek offset origin"
| "cfile_request pf (M_fsetpos position) = Fsetpos position"
| "cfile_request pf M_rewind = Rewind"
| "cfile_request pf M_clearerr = Clearerr"
| "cfile_request pf M_feof = Feof"
| "cfile_request pf M_ferror = Ferror"

definition cfile_io ::
  "bool \<Rightarrow> platform \<Rightarrow> io_member \<Rightarrow> address \<Rightarrow> state \<Rightarrow> failure + int \<times> state" where
  "cfile_io ndebug pf member this s =
     Inr (std_stream pf (cfile_request pf member) (objs s this) s)"

subsection \<open>Concrete platforms and states\<close>

text \<open>
  A platform on which every open succeeds with stream 7 and every close reports success,
  and one on which every open fails and every close reports \<^verbatim>\<open>EOF\<close>.
\<close>

definition working_platform :: platform where
  "working_platform =
     \<lparr>fopen_ret = (\<lambda>history filename m. Some 7),
      freopen_ret = (\<lambda>history filename m p. p),
      fclose_ret = (\<lambda>history p. 0),
      tmpfile_ret = (\<lambda>history. Some 8),
      stream_ret = (\<lambda>history r p. 0),
      IONBF = 2, IOFBF = 0, BUFSIZ = 8192\<rparr>"

definition failing_platform :: platform where
  "failing_platform =
     \<lparr>fopen_ret = (\<lambda>history filename m. None),
      freopen_ret = (\<lambda>history filename m p. None),
      fclose_ret = (\<lambda>history p. - 1),
      tmpfile_ret = (\<lambda>history. None),
      stream_ret = (\<lambda>history r p. - 1),
      IONBF = 2, IOFBF = 0, BUFSIZ = 8192\<rparr>"

text \<open>
  A state in which no object holds a stream, and one in which the object at address 1 holds
  stream 5 and the object at address 2 holds stream 6; no platform call has been made.
\<close>

definition all_empty :: state where
  "all_empty = \<lparr>objs = (\<lambda>a. None), calls = []\<rparr>"

definition two_open :: state where
  "two_open = \<lparr>objs = (\<lambda>a. if a = 1 then Some 5 else if a = 2 then Some 6 else None), calls = []\<rparr>"

section \<open>Properties\<close>

subsection \<open>Mode translation\<close>

lemmas Mode_defs =
  Mode_Read_def Mode_Write_def Mode_Append_def Mode_Binary_def Mode_Extended_def Mode_or_def

lemmas mode_defs =
  mode_read_def mode_write_def mode_append_def mode_binary_def mode_extended_def mode_or_def

lemma to_cstring_table:
  "to_cstring ndebug Mode_Read = Inr (Some ''r'')"
  "to_cstring ndebug Mode_Write = Inr (Some ''w'')"
  "to_cstring ndebug Mode_Append = Inr (Some ''a'')"
  "to_cstring ndebug (Mode_or Mode_Read Mode_Extended) = Inr (Some ''r+'')"
  "to_cstring ndebug (Mode_or Mode_Write Mode_Extended) = Inr (Some ''w+'')"
  "to_cstring ndebug (Mode_or Mode_Append Mode_Extended) = Inr (Some ''a+'')"
  "to_cstring ndebug (Mode_or Mode_Read Mode_Binary) = Inr (Some ''rb'')"
  "to_cstring ndebug (Mode_or Mode_Write Mode_Binary) = Inr (Some ''wb'')"
  "to_cstring ndebug (Mode_or Mode_Append Mode_Binary) = Inr (Some ''ab'')"
  "to_cstring ndebug (Mode_or (Mode_or Mode_Read Mode_Binary) Mode_Extended) = Inr (Some ''rb+'')"
  "to_cstring ndebug (Mode_or (Mode_or Mode_Write Mode_Binary) Mode_Extended) = Inr (Some ''wb+'')"
  "to_cstring ndebug (Mode_or (Mode_or Mode_Append Mode_Binary) Mode_Extended) = Inr (Some ''ab+'')"
  by (simp_all add: to_cstring_def Mode_defs)

lemma to_access_mode_string_table:
  "to_access_mode_string ndebug mode_read = Inr (Some ''r'')"
  "to_access_mode_string ndebug mode_write = Inr (Some ''w'')"
  "to_access_mode_string ndebug mode_append = Inr (Some ''a'')"
  "to_access_mode_string ndebug (mode_or mode_read mode_extended) = Inr (Some ''r+'')"
  "to_access_mode_string ndebug (mode_or mode_write mode_extended) = Inr (Some ''w+'')"
  "to_access_mode_string ndebug (mode_or mode_append mode_extended) = Inr (Some ''a+'')"
  "to_access_mode_string ndebug (mode_or mode_read mode_binary) = Inr (Some ''rb'')"
  "to_access_mode_string ndebug (mode_or mode_write mode_binary) = Inr (Some ''wb'')"
  "to_access_mode_string ndebug (mode_or mode_append mode_binary) = Inr (Some ''ab'')"
  "to_access_mode_string ndebug (mode_or (mode_or mode_read mode_binary) mode_extended)
     = Inr (Some ''rb+'')"
  "to_access_mode_string ndebug (mode_or (mode_or mode_write mode_binary) mode_extended)
     = Inr (Some ''wb+'')"
  "to_access_mode_string ndebug (mode_or (mode_or mode_append mode_binary) mode_extended)
     = Inr (Some ''ab+'')"
  by (simp_all add: to_access_mode_string_def mode_defs)

text \<open>The twelve labels of the two switches are the same twelve integers.\<close>

lemma switch_labels:
  "[Mode_Read, Mode_Write, Mode_Append,
    Mode_or Mode_Read Mode_Extended, Mode_or Mode_Write Mode_Extended,
    Mode_or Mode_Append Mode_Extended,
    Mode_or Mode_Read Mode_Binary, Mode_or Mode_Write Mode_Binary,
    Mode_or Mode_Append Mode_Binary,
    Mode_or (Mode_or Mode_Read Mode_Binary) Mode_Extended,
    Mode_or (Mode_or Mode_Write Mode_Binary) Mode_Extended,
    Mode_or (Mode_or Mode_Append Mode_Binary) Mode_Extended]
   = [1, 2, 4, 17, 18, 20, 9, 10, 12, 25, 26, 28]"
  "[mode_read, mode_write, mode_append,
    mode_or mode_read mode_extended, mode_or mode_write mode_extended,
    mode_or mode_append mode_extended,
    mode_or mode_read mode_binary, mode_or mode_write mode_binary,
    mode_or mode_append mode_binary,
    mode_or (mode_or mode_read mode_binary) mode_extended,
    mode_or (mode_or mode_write mode_binary) mode_extended,
    mode_or (mode_or mode_append mode_binary) mode_extended]
   = [1, 2, 4, 17, 18, 20, 9, 10, 12, 25, 26, 28]"
  by (simp_all add: Mode_defs mode_defs)

lemma to_cstring_outside:
  "m \<notin> {1, 2, 4, 17, 18, 20, 9, 10, 12, 25, 26, 28}
   \<Longrightarrow> to_cstring ndebug m = (if ndebug then Inr None else Inl Assertion_failed)"
  by (simp add: to_cstring_def Mode_defs)

lemma to_access_mode_string_outside:
  "m \<notin> {1, 2, 4, 17, 18, 20, 9, 10, 12, 25, 26, 28}
   \<Longrightarrow> to_access_mode_string ndebug m = (if ndebug then Inr None else Inl Assertion_failed)"
  by (simp add: to_access_mode_string_def mode_defs)

text \<open>
  Claim C1. For each of the twelve flag combinations (Read, Write, Append, each alone, with
  Extended, with Binary, and with Binary and Extended) the mode translation of \<open>CFile\<close> and
  that of \<open>cfile\<close> return the string of the table: r, w, a, r+, w+, a+, rb, wb, ab, rb+, wb+,
  ab+. For every other flag value the translation fails its assertion (in a build where
  \<^verbatim>\<open>assert\<close> is active), and so do the opening constructor, \<open>fopen\<close> and \<open>freopen\<close>
  called with it: they end before \<^verbatim>\<open>std::fopen\<close> or \<^verbatim>\<open>std::freopen\<close> is called.
\<close>

theorem mode_translation_table:
  "(to_cstring ndebug Mode_Read = Inr (Some ''r'') \<and>
    to_cstring ndebug Mode_Write = Inr (Some ''w'') \<and>
    to_cstring ndebug Mode_Append = Inr (Some ''a'') \<and>
    to_cstring ndebug (Mode_or Mode_Read Mode_Extended) = Inr (Some ''r+'') \<and>
    to_cstring ndebug (Mode_or Mode_Write Mode_Extended) = Inr (Some ''w+'') \<and>
    to_cstring ndebug (Mode_or Mode_Append Mode_Extended) = Inr (Some ''a+'') \<and>
    to_cstring ndebug (Mode_or Mode_Read Mode_Binary) = Inr (Some ''rb'') \<and>
    to_cstring ndebug (Mode_or Mode_Write Mode_Binary) = Inr (Some ''wb'') \<and>
    to_cstring ndebug (Mode_or Mode_Append Mode_Binary) = Inr (Some ''ab'') \<and>
    to_cstring ndebug (Mode_or (Mode_or Mode_Read Mode_Binary) Mode_Extended)
      = Inr (Some ''rb+'') \<and>
    to_cstring ndebug (Mode_or (Mode_or Mode_Write Mode_Binary) Mode_Extended)
      = Inr (Some ''wb+'') \<and>
    to_cstring ndebug (Mode_or (Mode_or Mode_Append Mode_Binary) Mode_Extended)
      = Inr (Some ''ab+'')) \<and>
   (to_access_mode_string ndebug mode_read = Inr (Some ''r'') \<and>
    to_access_mode_string ndebug mode_write = Inr (Some ''w'') \<and>
    to_access_mode_string ndebug mode_append = Inr (Some ''a'') \<and>
    to_access_mode_string ndebug (mode_or mode_read mode_extended) = Inr (Some ''r+'') \<and>
    to_access_mode_string ndebug (mode_or mode_write mode_extended) = Inr (Some ''w+'') \<and>
    to_access_mode_string ndebug (mode_or mode_append mode_extended) = Inr (Some ''a+'') \<and>
    to_access_mode_string ndebug (mode_or mode_read mode_binary) = Inr (Some ''rb'') \<and>
    to_access_mode_string ndebug (mode_or mode_write mode_binary) = Inr (Some ''wb'') \<and>
    to_access_mode_string ndebug (mode_or mode_append mode_binary) = Inr (Some ''ab'') \<and>
    to_access_mode_string ndebug (mode_or (mode_or mode_read mode_binary) mode_extended)
      = Inr (Some ''rb+'') \<and>
    to_access_mode_string ndebug (mode_or (mode_or mode_write mode_binary) mode_extended)
      = Inr (Some ''wb+'') \<and>
    to_access_mode_string ndebug (mode_or (mode_or mode_append mode_binary) mode_extended)
      = Inr (Some ''ab+'')) \<and>
   (m \<notin> {Mode_Read, Mode_Write, Mode_Append,
           Mode_or Mode_Read Mode_Extended, Mode_or Mode_Write Mode_Extended,
           Mode_or Mode_Append Mode_Extended,
           Mode_or Mode_Read Mode_Binary, Mode_or Mode_Write Mode_Binary,
           Mode_or Mode_Append Mode_Binary,
           Mode_or (Mode_or Mode_Read Mode_Binary) Mode_Extended,
           Mode_or (Mode_or Mode_Write Mode_Binary) Mode_Extended,
           Mode_or (Mode_or Mode_Append Mode_Binary) Mode_Extended}
    \<longrightarrow>
      to_cstring False m = Inl Assertion_failed \<and>
      to_access_mode_string False m = Inl Assertion_failed \<and>
      CFile_open_ctor False pf filename (Flags m) this s = Inl Assertion_failed \<and>
      CFile_fopen False pf filename (Flags m) this s = Inl Assertion_failed \<and>
      CFile_freopen False pf filename (Flags m) this s = Inl Assertion_failed \<and>
      cfile_open_ctor False pf filename (Flags m) this s = Inl Assertion_failed \<and>
      cfile_fopen False pf filename (Flags m) this s = Inl Assertion_failed \<and>
      cfile_freopen False pf filename (Flags m) this s = Inl Assertion_failed)"
proof (intro conjI impI)
  assume "m \<notin> {Mode_Read, Mode_Write, Mode_Append,
           Mode_or Mode_Read Mode_Extended, Mode_or Mode_Write Mode_Extended,
           Mode_or Mode_Append Mode_Extended,
           Mode_or Mode_Read Mode_Binary, Mode_or Mode_Write Mode_Binary,
           Mode_or Mode_Append Mode_Binary,
           Mode_or (Mode_or Mode_Read Mode_Binary) Mode_Extended,
           Mode_or (Mode_or Mode_Write Mode_Binary) Mode_Extended,
           Mode_or (Mode_or Mode_Append Mode_Binary) Mode_Extended}"
  then have out: "m \<notin> {1, 2, 4, 17, 18, 20, 9, 10, 12, 25, 26, 28}"
    by (simp add: Mode_defs)
  show a: "to_cstring False m = Inl Assertion_failed"
    using to_cstring_outside [OF out, of False] by simp
  show b: "to_access_mode_string False m = Inl Assertion_failed"
    using to_access_mode_string_outside [OF out, of False] by simp
  show "CFile_open_ctor False pf filename (Flags m) this s = Inl Assertion_failed"
    by (simp add: CFile_open_ctor_def CFile_mode_cstring_def a)
  show "CFile_fopen False pf filename (Flags m) this s = Inl Assertion_failed"
    by (simp add: CFile_fopen_def CFile_mode_cstring_def a)
  show "CFile_freopen False pf filename (Flags m) this s = Inl Assertion_failed"
    by (simp add: CFile_freopen_def CFile_mode_cstring_def a)
  show "cfile_open_ctor False pf filename (Flags m) this s = Inl Assertion_failed"
    by (simp add: cfile_open_ctor_def cfile_mode_cstring_def b)
  show "cfile_fopen False pf filename (Flags m) this s = Inl Assertion_failed"
    by (simp add: cfile_fopen_def cfile_mode_cstring_def b)
  show "cfile_freopen False pf filename (Flags m) this s = Inl Assertion_failed"
    by (simp add: cfile_freopen_def cfile_mode_cstring_def b)
qed (simp_all only: to_cstring_table to_access_mode_string_table)

text \<open>
  The theorem at the flag value 3 (Read with Write), which is none of the twelve, on the
  working platform with the object at address 0 empty.
\<close>

theorem mode_translation_table_witness:
  "Mode_or Mode_Read Mode_Write = 3 \<and>
   to_cstring False 3 = Inl Assertion_failed \<and>
   to_access_mode_string False 3 = Inl Assertion_failed \<and>
   CFile_open_ctor False working_platform (Some ''f.txt'') (Flags 3) 0 all_empty
     = Inl Assertion_failed \<and>
   CFile_fopen False working_platform (Some ''f.txt'') (Flags 3) 0 all_empty
     = Inl Assertion_failed \<and>
   cfile_open_ctor False working_platform (Some ''f.txt'') (Flags 3) 0 all_empty
     = Inl Assertion_failed \<and>
   cfile_fopen False working_platform (Some ''f.txt'') (Flags 3) 0 all_empty
     = Inl Assertion_failed \<and>
   to_cstring False (Mode_or (Mode_or Mode_Read Mode_Binary) Mode_Extended) = Inr (Some ''rb+'')"
proof -
  have out: "(3::int) \<notin> {Mode_Read, Mode_Write, Mode_Append,
           Mode_or Mode_Read Mode_Extended, Mode_or Mode_Write Mode_Extended,
           Mode_or Mode_Append Mode_Extended,
           Mode_or Mode_Read Mode_Binary, Mode_or Mode_Write Mode_Binary,
           Mode_or Mode_Append Mode_Binary,
           Mode_or (Mode_or Mode_Read Mode_Binary) Mode_Extended,
           Mode_or (Mode_or Mode_Write Mode_Binary) Mode_Extended,
           Mode_or (Mode_or Mode_Append Mode_Binary) Mode_Extended}"
    by (simp add: Mode_defs)
  have three: "Mode_or Mode_Read Mode_Write = 3"
    by (simp add: Mode_defs)
  show ?thesis
    using mode_translation_table
      [of False 3 working_platform "Some ''f.txt''" 0 all_empty] out three
    by simp
qed

text \<open>
  For comparison, a build with \<^verbatim>\<open>NDEBUG\<close>: there the assertion is gone, the translation
  returns a null pointer, and the constructor passes it to \<^verbatim>\<open>std::fopen\<close>.
\<close>

lemma ndebug_passes_null_mode:
  "to_cstring True 3 = Inr None \<and>
   calls (projr (CFile_open_ctor True working_platform (Some ''f.txt'') (Flags 3) 0 all_empty))
     = [Std_fopen (Some ''f.txt'') None]"
  by (simp add: to_cstring_def Mode_defs CFile_open_ctor_def CFile_mode_cstring_def
      std_fopen_def set_stream_def all_empty_def)

subsection \<open>Ownership\<close>

text \<open>
  Claim C2. For two instances \<open>a\<close> (at \<open>other\<close>) and \<open>b\<close> (at \<open>this\<close>), after moving \<open>a\<close> into
  \<open>b\<close>, by the move constructor or by move assignment, \<open>b\<close> holds the handle \<open>a\<close> held before
  and \<open>a\<close> is empty. The move constructor calls no platform function. Move assignment calls
  \<^verbatim>\<open>std::fclose\<close> exactly once, on the handle \<open>b\<close> held before, when \<open>b\<close> was not empty, and
  calls nothing otherwise.
\<close>

theorem move_transfers_handle:
  assumes "this \<noteq> other"
  shows
  "objs (CFile_move_ctor other this s) this = objs s other \<and>
   objs (CFile_move_ctor other this s) other = None \<and>
   calls (CFile_move_ctor other this s) = calls s \<and>
   objs (CFile_move_assign pf other this s) this = objs s other \<and>
   objs (CFile_move_assign pf other this s) other = None \<and>
   calls (CFile_move_assign pf other this s) =
     calls s @ (case objs s this of None \<Rightarrow> [] | Some h \<Rightarrow> [Std_fclose (Some h)]) \<and>
   objs (cfile_move_ctor other this s) this = objs s other \<and>
   objs (cfile_move_ctor other this s) other = None \<and>
   calls (cfile_move_ctor other this s) = calls s \<and>
   objs (cfile_move_assign pf other this s) this = objs s other \<and>
   objs (cfile_move_assign pf other this s) other = None \<and>
   calls (cfile_move_assign pf other this s) =
     calls s @ (case objs s this of None \<Rightarrow> [] | Some h \<Rightarrow> [Std_fclose (Some h)])"
  using assms
  by (auto simp: CFile_move_ctor_def CFile_move_assign_def cfile_move_ctor_def
      cfile_move_assign_def set_stream_def std_fclose_def exchange_stream_def
      split: option.splits)

text \<open>
  The theorem with \<open>a\<close> at address 1 holding stream 5 and \<open>b\<close> at address 2 holding stream 6:
  after \<open>b = std::move(a)\<close>, \<open>b\<close> holds 5, \<open>a\<close> is empty, and stream 6 was closed. And with a
  new \<open>b\<close> built at address 0 by the move constructor from the same \<open>a\<close>.
\<close>

theorem move_transfers_handle_witness:
  "(2::nat) \<noteq> 1 \<and> (0::nat) \<noteq> 1 \<and>
   objs (CFile_move_assign working_platform 1 2 two_open) 2 = Some 5 \<and>
   objs (CFile_move_assign working_platform 1 2 two_open) 1 = None \<and>
   calls (CFile_move_assign working_platform 1 2 two_open) = [Std_fclose (Some 6)] \<and>
   objs (cfile_move_ctor 1 0 two_open) 0 = Some 5 \<and>
   objs (cfile_move_ctor 1 0 two_open) 1 = None \<and>
   calls (cfile_move_ctor 1 0 two_open) = []"
proof -
  have assigned: "(2::nat) \<noteq> 1" by simp
  have built: "(0::nat) \<noteq> 1" by simp
  show ?thesis
    using move_transfers_handle [OF assigned, of two_open working_platform]
      move_transfers_handle [OF built, of two_open working_platform]
    by (simp add: two_open_def)
qed

text \<open>
  Moving an object into itself is not a move between two instances. Neither
  \<^verbatim>\<open>operator=\<close> tests for it: the handle is closed and then stored again.
\<close>

lemma self_move_assign:
  "objs s this = Some h \<Longrightarrow>
   objs (CFile_move_assign pf this this s) this = Some h \<and>
   calls (CFile_move_assign pf this this s) = calls s @ [Std_fclose (Some h)] \<and>
   objs (cfile_move_assign pf this this s) this = Some h \<and>
   calls (cfile_move_assign pf this this s) = calls s @ [Std_fclose (Some h)]"
  by (simp add: CFile_move_assign_def cfile_move_assign_def exchange_stream_def
      set_stream_def std_fclose_def)

text \<open>
  Claim C3. \<open>release()\<close> returns the handle the instance held, leaves the instance empty,
  and calls no platform function: the list of platform calls is the same afterwards, so
  \<^verbatim>\<open>std::fclose\<close> in particular is not called.
\<close>

theorem release_returns_handle:
  "fst (CFile_release this s) = objs s this \<and>
   objs (snd (CFile_release this s)) this = None \<and>
   calls (snd (CFile_release this s)) = calls s \<and>
   fst (cfile_release this s) = objs s this \<and>
   objs (snd (cfile_release this s)) this = None \<and>
   calls (snd (cfile_release this s)) = calls s"
  by (simp add: CFile_release_def cfile_release_def set_stream_def)

text \<open>
  Claim C4, as amended. \<open>reset()\<close> is idempotent: on a non-empty instance it calls
  \<^verbatim>\<open>std::fclose\<close> on the held handle, empties the instance and returns the platform's
  status; on an empty instance it calls nothing, changes nothing and returns 0; so a second
  \<open>reset()\<close> is such a no-op. The member \<open>fclose()\<close> has no test: it calls \<^verbatim>\<open>std::fclose\<close> on
  whatever the instance holds, the null pointer included, empties the instance and returns
  the platform's status. On a non-empty instance the two do the same.
\<close>

theorem reset_idempotent_fclose_unguarded:
  "CFile_reset pf this s =
     (case objs s this of
        None \<Rightarrow> (0, s)
      | Some h \<Rightarrow> (fclose_ret pf (calls s) (Some h),
                   s\<lparr>objs := (objs s)(this := None), calls := calls s @ [Std_fclose (Some h)]\<rparr>)) \<and>
   CFile_reset pf this (snd (CFile_reset pf this s)) = (0, snd (CFile_reset pf this s)) \<and>
   CFile_fclose pf this s =
     (fclose_ret pf (calls s) (objs s this),
      s\<lparr>objs := (objs s)(this := None), calls := calls s @ [Std_fclose (objs s this)]\<rparr>) \<and>
   cfile_reset pf this s =
     (case objs s this of
        None \<Rightarrow> (0, s)
      | Some h \<Rightarrow> (fclose_ret pf (calls s) (Some h),
                   s\<lparr>objs := (objs s)(this := None), calls := calls s @ [Std_fclose (Some h)]\<rparr>)) \<and>
   cfile_reset pf this (snd (cfile_reset pf this s)) = (0, snd (cfile_reset pf this s)) \<and>
   cfile_fclose pf this s =
     (fclose_ret pf (calls s) (objs s this),
      s\<lparr>objs := (objs s)(this := None), calls := calls s @ [Std_fclose (objs s this)]\<rparr>)"
  by (simp add: CFile_reset_def CFile_fclose_def cfile_reset_def cfile_fclose_def
      std_fclose_def set_stream_def split: option.splits)

text \<open>
  Claim C4 as stated fails for the member \<open>fclose()\<close>: on an empty instance it does call the
  platform, with the null pointer, and returns what the platform returns, here \<open>-1\<close>.
\<close>

theorem fclose_on_empty_calls_platform:
  "objs all_empty 0 = None \<and> calls all_empty = [] \<and>
   calls (snd (CFile_fclose failing_platform 0 all_empty)) = [Std_fclose None] \<and>
   fst (CFile_fclose failing_platform 0 all_empty) = - 1 \<and>
   calls (snd (cfile_fclose failing_platform 0 all_empty)) = [Std_fclose None] \<and>
   fst (cfile_fclose failing_platform 0 all_empty) = - 1"
  by (simp add: all_empty_def failing_platform_def CFile_fclose_def cfile_fclose_def
      std_fclose_def set_stream_def)

text \<open>
  Claim C5. The destructor of a non-empty instance calls \<^verbatim>\<open>std::fclose\<close> exactly once, on
  the held handle, and its status is dropped; the destructor of an empty instance calls
  nothing. An instance that was released is empty, so its destructor calls nothing.
\<close>

theorem destructor_closes_once:
  "calls (CFile_dtor pf this s) =
     calls s @ (case objs s this of None \<Rightarrow> [] | Some h \<Rightarrow> [Std_fclose (Some h)]) \<and>
   calls (cfile_dtor pf this s) =
     calls s @ (case objs s this of None \<Rightarrow> [] | Some h \<Rightarrow> [Std_fclose (Some h)]) \<and>
   calls (CFile_dtor pf this (snd (CFile_release this s))) = calls s \<and>
   calls (cfile_dtor pf this (snd (cfile_release this s))) = calls s"
  by (simp add: CFile_dtor_def cfile_dtor_def CFile_release_def cfile_release_def
      set_stream_def std_fclose_def split: option.splits)

subsection \<open>Preconditions\<close>

text \<open>
  Claim C6, as amended. No pass-through member tests the stream: whatever the build, each
  makes its stdio call with the pointer the instance holds, which is the null pointer when
  the instance is empty, returns the platform's result and leaves every object as it was.
  None of them ends in an assertion failure.
\<close>

theorem io_forwards_unchecked:
  "CFile_io ndebug pf member this s =
     Inr (stream_ret pf (calls s) (CFile_request pf member) (objs s this),
          s\<lparr>calls := calls s @ [Std_stream (CFile_request pf member) (objs s this)]\<rparr>) \<and>
   cfile_io ndebug pf member this s =
     Inr (stream_ret pf (calls s) (cfile_request pf member) (objs s this),
          s\<lparr>calls := calls s @ [Std_stream (cfile_request pf member) (objs s this)]\<rparr>) \<and>
   CFile_io ndebug pf member this s \<noteq> Inl Assertion_failed \<and>
   cfile_io ndebug pf member this s \<noteq> Inl Assertion_failed"
  by (simp add: CFile_io_def cfile_io_def std_stream_def)

text \<open>
  Claim C6 as stated fails: with assertions active, \<open>CFile::fread\<close>, \<open>cfile::fgetc\<close> and
  \<open>cfile::fputc\<close> on an empty instance do not fail an assertion; they call
  \<^verbatim>\<open>std::fread\<close>, \<^verbatim>\<open>std::fgetc\<close> and \<^verbatim>\<open>std::fputc\<close> with the null pointer.
\<close>

theorem io_on_empty_reaches_platform:
  "objs all_empty 0 = None \<and>
   CFile_io False working_platform (M_fread (Some 0) 1 5) 0 all_empty =
     Inr (0, \<lparr>objs = objs all_empty, calls = [Std_stream (Fread (Some 0) 1 5) None]\<rparr>) \<and>
   cfile_io False working_platform M_fgetc 0 all_empty =
     Inr (0, \<lparr>objs = objs all_empty, calls = [Std_stream Fgetc None]\<rparr>) \<and>
   cfile_io False working_platform (M_fputc 65) 0 all_empty =
     Inr (0, \<lparr>objs = objs all_empty, calls = [Std_stream (Fputc 65) None]\<rparr>) \<and>
   CFile_io False working_platform (M_fread (Some 0) 1 5) 0 all_empty \<noteq> Inl Assertion_failed"
  by (simp add: all_empty_def working_platform_def CFile_io_def cfile_io_def std_stream_def)

text \<open>
  Claim C7, as amended. The literal \<^verbatim>\<open>nullptr\<close> is rejected by both adoption paths of both
  classes: it selects a deleted overload. A \<^verbatim>\<open>std::FILE *\<close> argument is adopted without a
  test, whatever its value: afterwards the instance holds exactly that pointer, so it is
  empty when the pointer was null. The adopting constructor calls no platform function.
  \<open>reset\<close> first calls \<^verbatim>\<open>std::fclose\<close> exactly once on the handle the instance held, and
  returns its status, when the instance was not empty; otherwise it calls nothing and
  returns 0. \<open>tmpfile()\<close> calls \<^verbatim>\<open>std::tmpfile\<close> once and adopts its result this way.
\<close>

theorem nullptr_literal_rejected:
  "CFile_adopt_ctor Nullptr_literal this s = Inl Deleted_function \<and>
   CFile_reset_to pf Nullptr_literal this s = Inl Deleted_function \<and>
   cfile_adopt_ctor Nullptr_literal this s = Inl Deleted_function \<and>
   cfile_reset_to pf Nullptr_literal this s = Inl Deleted_function \<and>
   CFile_adopt_ctor (File_pointer p) this s = Inr (s\<lparr>objs := (objs s)(this := p)\<rparr>) \<and>
   cfile_adopt_ctor (File_pointer p) this s = Inr (s\<lparr>objs := (objs s)(this := p)\<rparr>) \<and>
   CFile_reset_to pf (File_pointer p) this s =
     Inr (case objs s this of
            None \<Rightarrow> (0, s\<lparr>objs := (objs s)(this := p)\<rparr>)
          | Some h \<Rightarrow>
              (fclose_ret pf (calls s) (Some h),
               s\<lparr>objs := (objs s)(this := p), calls := calls s @ [Std_fclose (Some h)]\<rparr>)) \<and>
   cfile_reset_to pf (File_pointer p) this s =
     Inr (case objs s this of
            None \<Rightarrow> (0, s\<lparr>objs := (objs s)(this := p)\<rparr>)
          | Some h \<Rightarrow>
              (fclose_ret pf (calls s) (Some h),
               s\<lparr>objs := (objs s)(this := p), calls := calls s @ [Std_fclose (Some h)]\<rparr>)) \<and>
   CFile_tmpfile pf this s =
     Inr (s\<lparr>objs := (objs s)(this := tmpfile_ret pf (calls s)),
            calls := calls s @ [Std_tmpfile]\<rparr>) \<and>
   cfile_tmpfile pf this s =
     Inr (s\<lparr>objs := (objs s)(this := tmpfile_ret pf (calls s)),
            calls := calls s @ [Std_tmpfile]\<rparr>) \<and>
   (case CFile_adopt_ctor (File_pointer p) this s of
      Inl e \<Rightarrow> False | Inr s' \<Rightarrow> objs s' this = p \<and> calls s' = calls s) \<and>
   (case CFile_reset_to pf (File_pointer p) this s of
      Inl e \<Rightarrow> False
    | Inr (status, s') \<Rightarrow>
        objs s' this = p \<and>
        calls s' = calls s @ (case objs s this of None \<Rightarrow> [] | Some h \<Rightarrow> [Std_fclose (Some h)]) \<and>
        status = (case objs s this of None \<Rightarrow> 0 | Some h \<Rightarrow> fclose_ret pf (calls s) (Some h))) \<and>
   (case cfile_adopt_ctor (File_pointer p) this s of
      Inl e \<Rightarrow> False | Inr s' \<Rightarrow> objs s' this = p \<and> calls s' = calls s) \<and>
   (case cfile_reset_to pf (File_pointer p) this s of
      Inl e \<Rightarrow> False
    | Inr (status, s') \<Rightarrow>
        objs s' this = p \<and>
        calls s' = calls s @ (case objs s this of None \<Rightarrow> [] | Some h \<Rightarrow> [Std_fclose (Some h)]) \<and>
        status = (case objs s this of None \<Rightarrow> 0 | Some h \<Rightarrow> fclose_ret pf (calls s) (Some h))) \<and>
   (case CFile_tmpfile pf this s of
      Inl e \<Rightarrow> False
    | Inr s' \<Rightarrow> objs s' this = tmpfile_ret pf (calls s) \<and> calls s' = calls s @ [Std_tmpfile]) \<and>
   (case cfile_tmpfile pf this s of
      Inl e \<Rightarrow> False
    | Inr s' \<Rightarrow> objs s' this = tmpfile_ret pf (calls s) \<and> calls s' = calls s @ [Std_tmpfile])"
  by (simp add: CFile_adopt_ctor_def CFile_reset_to_def cfile_adopt_ctor_def cfile_reset_to_def
      CFile_tmpfile_def cfile_tmpfile_def std_tmpfile_def
      std_fclose_def set_stream_def split_def split: option.splits)

text \<open>
  Claim C7 as stated fails: an empty instance does arise from adopting a null pointer.
  The adopting constructor given a null \<^verbatim>\<open>std::FILE *\<close> builds an empty instance at address
  0; \<open>reset\<close> given one empties the instance at address 1, which held stream 5; and
  \<open>tmpfile()\<close> on a platform where \<^verbatim>\<open>std::tmpfile\<close> fails returns an empty instance.
\<close>

theorem adopting_null_pointer_gives_empty:
  "CFile_adopt_ctor (File_pointer None) 0 two_open
     = Inr \<lparr>objs = (\<lambda>a. if a = 1 then Some 5 else if a = 2 then Some 6 else None),
            calls = []\<rparr> \<and>
   CFile_eq_nullptr 0
     \<lparr>objs = (\<lambda>a. if a = 1 then Some 5 else if a = 2 then Some 6 else None), calls = []\<rparr> \<and>
   CFile_reset_to working_platform (File_pointer None) 1 two_open
     = Inr (0, \<lparr>objs = (\<lambda>a. if a = 2 then Some 6 else None), calls = [Std_fclose (Some 5)]\<rparr>) \<and>
   CFile_eq_nullptr 1
     \<lparr>objs = (\<lambda>a. if a = 2 then Some 6 else None), calls = [Std_fclose (Some 5)]\<rparr> \<and>
   CFile_tmpfile failing_platform 0 all_empty
     = Inr \<lparr>objs = (\<lambda>a. None), calls = [Std_tmpfile]\<rparr> \<and>
   CFile_eq_nullptr 0 \<lparr>objs = (\<lambda>a. None), calls = [Std_tmpfile]\<rparr>"
  by (auto simp add: two_open_def all_empty_def working_platform_def failing_platform_def
       CFile_adopt_ctor_def CFile_reset_to_def CFile_tmpfile_def CFile_eq_nullptr_def
       std_fclose_def std_tmpfile_def set_stream_def fun_eq_iff)

text \<open>
  Claim C9. After the member \<open>fclose()\<close>, and after \<open>reset()\<close>, the instance is empty, whatever
  the platform's \<^verbatim>\<open>std::fclose\<close> returns: the platform, and with it the status, is
  arbitrary. \<open>fclose()\<close> returns that status and does not keep the handle.
\<close>

theorem close_always_empties:
  "objs (snd (CFile_fclose pf this s)) this = None \<and>
   fst (CFile_fclose pf this s) = fclose_ret pf (calls s) (objs s this) \<and>
   objs (snd (CFile_reset pf this s)) this = None \<and>
   objs (snd (cfile_fclose pf this s)) this = None \<and>
   fst (cfile_fclose pf this s) = fclose_ret pf (calls s) (objs s this) \<and>
   objs (snd (cfile_reset pf this s)) this = None"
  by (simp add: CFile_fclose_def CFile_reset_def cfile_fclose_def cfile_reset_def
      set_stream_def std_fclose_def split_def)

text \<open>An instance: the close fails with \<open>-1\<close>, and the object at address 1 is empty afterwards.\<close>

lemma failed_close_empties:
  "CFile_fclose failing_platform 1 two_open =
     (- 1, \<lparr>objs = (\<lambda>a. if a = 2 then Some 6 else None), calls = [Std_fclose (Some 5)]\<rparr>) \<and>
   CFile_reset failing_platform 1 two_open =
     (- 1, \<lparr>objs = (\<lambda>a. if a = 2 then Some 6 else None), calls = [Std_fclose (Some 5)]\<rparr>)"
  by (auto simp add: two_open_def failing_platform_def CFile_fclose_def CFile_reset_def
      std_fclose_def set_stream_def fun_eq_iff)

text \<open>
  Claim C10. With assertions active, the member \<open>fopen\<close> called on a non-empty instance ends
  in an assertion failure, for every filename and every mode argument: \<^verbatim>\<open>std::fopen\<close> is
  not called and the held handle is not overwritten.
\<close>

theorem fopen_requires_empty:
  assumes "objs s this \<noteq> None"
  shows "CFile_fopen False pf filename mode this s = Inl Assertion_failed \<and>
         cfile_fopen False pf filename mode this s = Inl Assertion_failed"
  using assms by (simp add: CFile_fopen_def cfile_fopen_def)

text \<open>The theorem for the object at address 1, which holds stream 5.\<close>

theorem fopen_requires_empty_witness:
  "objs two_open 1 \<noteq> None \<and>
   CFile_fopen False working_platform (Some ''f.txt'') (Flags Mode_Read) 1 two_open
     = Inl Assertion_failed \<and>
   cfile_fopen False working_platform (Some ''f.txt'') (Raw (Some ''r'')) 1 two_open
     = Inl Assertion_failed"
proof -
  have held: "objs two_open 1 \<noteq> None"
    by (simp add: two_open_def)
  show ?thesis
    using held
      fopen_requires_empty [OF held, of working_platform "Some ''f.txt''" "Flags Mode_Read"]
      fopen_requires_empty [OF held, of working_platform "Some ''f.txt''" "Raw (Some ''r'')"]
    by simp
qed

text \<open>
  For comparison, a build with \<^verbatim>\<open>NDEBUG\<close>: there \<open>fopen\<close> on the same object overwrites
  stream 5 with the new stream 7, and stream 5 is never closed.
\<close>

lemma ndebug_fopen_overwrites:
  "CFile_fopen True working_platform (Some ''f.txt'') (Raw (Some ''r'')) 1 two_open =
     Inr \<lparr>objs = (\<lambda>a. if a = 1 then Some 7 else if a = 2 then Some 6 else None),
          calls = [Std_fopen (Some ''f.txt'') (Some ''r'')]\<rparr>"
  by (auto simp add: two_open_def working_platform_def CFile_fopen_def CFile_mode_cstring_def
      std_fopen_def set_stream_def fun_eq_iff)

subsection \<open>The two classes compared\<close>

lemma request_eq: "cfile_request pf member = CFile_request pf member"
  by (cases member) simp_all

text \<open>
  Claim C8, as amended. The two classes have the same flag values and the same
  \<^verbatim>\<open>operator|\<close>; their mode translations are the same function; and the adopting and
  opening constructors, the move constructor, move assignment, the destructor, both
  \<open>reset\<close>s, \<open>release\<close>, the comparisons with \<^verbatim>\<open>nullptr\<close>, \<open>fopen\<close>, \<open>freopen\<close>, \<open>fclose\<close>,
  \<open>tmpfile\<close> and the pass-through members are the same functions of the state, as is the
  default constructor of \<open>cfile\<close> under value-initialization. (The result of \<open>get\<close>, the
  conversion to \<^verbatim>\<open>bool\<close> that only \<open>cfile\<close> has, and default-initialization are not
  part of the statement.)
\<close>

theorem classes_agree:
  "mode_read = Mode_Read \<and> mode_write = Mode_Write \<and> mode_append = Mode_Append \<and>
   mode_binary = Mode_Binary \<and> mode_extended = Mode_Extended \<and> mode_or = Mode_or \<and>
   to_access_mode_string = to_cstring \<and>
   cfile_mode_cstring = CFile_mode_cstring \<and>
   cfile_default_ctor Value_initialization = CFile_default_ctor \<and>
   cfile_request = CFile_request \<and>
   cfile_adopt_ctor = CFile_adopt_ctor \<and>
   cfile_open_ctor = CFile_open_ctor \<and>
   cfile_move_ctor = CFile_move_ctor \<and>
   cfile_move_assign = CFile_move_assign \<and>
   cfile_dtor = CFile_dtor \<and>
   cfile_reset = CFile_reset \<and>
   cfile_reset_to = CFile_reset_to \<and>
   cfile_release = CFile_release \<and>
   cfile_eq_nullptr = CFile_eq_nullptr \<and>
   cfile_ne_nullptr = CFile_ne_nullptr \<and>
   cfile_fopen = CFile_fopen \<and>
   cfile_freopen = CFile_freopen \<and>
   cfile_fclose = CFile_fclose \<and>
   cfile_tmpfile = CFile_tmpfile \<and>
   cfile_io = CFile_io"
proof -
  have flags: "mode_read = Mode_Read" "mode_write = Mode_Write" "mode_append = Mode_Append"
    "mode_binary = Mode_Binary" "mode_extended = Mode_Extended"
    by (simp_all add: mode_defs Mode_defs)
  have or_eq: "mode_or = Mode_or"
    by (intro ext) (simp add: mode_or_def Mode_or_def)
  have translate: "to_access_mode_string = to_cstring"
    by (intro ext) (simp only: to_access_mode_string_def to_cstring_def flags or_eq)
  have arg: "cfile_mode_cstring = CFile_mode_cstring"
    by (intro ext) (simp only: cfile_mode_cstring_def CFile_mode_cstring_def translate)
  have dflt: "cfile_default_ctor Value_initialization = CFile_default_ctor"
    by (intro ext) (simp add: cfile_default_ctor_def CFile_default_ctor_def)
  have request: "cfile_request = CFile_request"
    by (intro ext) (rule request_eq)
  have adopt_ctor: "cfile_adopt_ctor = CFile_adopt_ctor"
    by (intro ext) (simp only: cfile_adopt_ctor_def CFile_adopt_ctor_def)
  have open_ctor: "cfile_open_ctor = CFile_open_ctor"
    by (intro ext) (simp only: cfile_open_ctor_def CFile_open_ctor_def arg)
  have move_ctor: "cfile_move_ctor = CFile_move_ctor"
    by (intro ext) (simp only: cfile_move_ctor_def CFile_move_ctor_def)
  have move_assign: "cfile_move_assign = CFile_move_assign"
    by (intro ext) (simp only: cfile_move_assign_def CFile_move_assign_def)
  have dtor: "cfile_dtor = CFile_dtor"
    by (intro ext) (simp only: cfile_dtor_def CFile_dtor_def)
  have reset: "cfile_reset = CFile_reset"
    by (intro ext) (simp only: cfile_reset_def CFile_reset_def)
  have reset_to: "cfile_reset_to = CFile_reset_to"
    by (intro ext) (simp only: cfile_reset_to_def CFile_reset_to_def)
  have release: "cfile_release = CFile_release"
    by (intro ext) (simp only: cfile_release_def CFile_release_def)
  have eq_nullptr: "cfile_eq_nullptr = CFile_eq_nullptr"
    by (intro ext) (simp only: cfile_eq_nullptr_def CFile_eq_nullptr_def)
  have ne_nullptr: "cfile_ne_nullptr = CFile_ne_nullptr"
    by (intro ext) (simp only: cfile_ne_nullptr_def CFile_ne_nullptr_def)
  have fopen: "cfile_fopen = CFile_fopen"
    by (intro ext) (simp only: cfile_fopen_def CFile_fopen_def arg)
  have freopen: "cfile_freopen = CFile_freopen"
    by (intro ext) (simp only: cfile_freopen_def CFile_freopen_def arg)
  have fclose: "cfile_fclose = CFile_fclose"
    by (intro ext) (simp only: cfile_fclose_def CFile_fclose_def)
  have tmpfile: "cfile_tmpfile = CFile_tmpfile"
    by (intro ext) (simp only: cfile_tmpfile_def CFile_tmpfile_def adopt_ctor)
  have io: "cfile_io = CFile_io"
    by (intro ext) (simp only: cfile_io_def CFile_io_def request)
  show ?thesis
    by (intro conjI flags or_eq translate arg dflt request adopt_ctor open_ctor move_ctor
        move_assign dtor reset reset_to release eq_nullptr ne_nullptr fopen freopen fclose
        tmpfile io)
qed

text \<open>
  Claim C8 as stated fails: the classes differ in more than names and argument types.
  \<open>CFile::get\<close> returns a reference to the member, \<open>cfile::get\<close> a copy of its value; and
  where the storage at address 1 holds the bits of pointer 5, a default-initialized \<open>CFile\<close>
  there is empty, while a default-initialized \<open>cfile\<close> there is not.
\<close>

theorem classes_differ:
  "CFile_get 1 two_open = Reference_to_stream 1 \<and>
   cfile_get 1 two_open = Pointer_value (Some 5) \<and>
   CFile_get 1 two_open \<noteq> cfile_get 1 two_open \<and>
   CFile_eq_nullptr 1 (CFile_default_ctor 1 two_open) \<and>
   \<not> cfile_eq_nullptr 1 (cfile_default_ctor Default_initialization 1 two_open)"
  by (simp add: CFile_get_def cfile_get_def CFile_default_ctor_def cfile_default_ctor_def
      CFile_eq_nullptr_def cfile_eq_nullptr_def two_open_def set_stream_def)

end
